theory Spec2Isabelle
  imports Complex_Main
begin

section \<open>Message model (app/models.py)\<close>

text \<open>
  \<^verbatim>\<open>EmailMessageData\<close> is a dataclass of nine fields. Strings are byte strings here: the
  body is held as its UTF-8 encoding, so that \<^verbatim>\<open>len(body.encode('utf-8'))\<close> is \<open>length\<close>.
  The headers dictionary keeps insertion order and is an association list. Timestamps
  are readings of \<^verbatim>\<open>time.time()\<close>. The retry counter starts at 0 and is only ever
  incremented, so it is a natural number. The field \<^verbatim>\<open>id\<close> is called \<open>msg_id\<close>
  (\<open>id\<close> is the identity function of HOL).
\<close>

record email_message_data =
  msg_id :: string
  from_addr :: string
  to_addrs :: "string list"
  message_headers :: "(string \<times> string) list"
  message_body :: string
  created_at :: real
  retry_count :: nat
  last_retry_at :: real
  status :: string

text \<open>
  The dictionary form of \<^verbatim>\<open>to_dict\<close>: one optional entry per key, \<open>None\<close> when
  the key is absent, so that \<^verbatim>\<open>data.get(key, default)\<close> is a case distinction.
\<close>

record message_dict =
  d_id :: "string option"
  d_from_addr :: "string option"
  d_to_addrs :: "string list option"
  d_message_headers :: "(string \<times> string) list option"
  d_message_body :: "string option"
  d_created_at :: "real option"
  d_retry_count :: "nat option"
  d_last_retry_at :: "real option"
  d_status :: "string option"

definition to_dict :: "email_message_data \<Rightarrow> message_dict" where
  "to_dict m =
     \<lparr> d_id = Some (msg_id m),
       d_from_addr = Some (from_addr m),
       d_to_addrs = Some (to_addrs m),
       d_message_headers = Some (message_headers m),
       d_message_body = Some (message_body m),
       d_created_at = Some (created_at m),
       d_retry_count = Some (retry_count m),
       d_last_retry_at = Some (last_retry_at m),
       d_status = Some (status m) \<rparr>"

definition dict_get :: "'a option \<Rightarrow> 'a \<Rightarrow> 'a" where
  "dict_get entry dflt = (case entry of None \<Rightarrow> dflt | Some v \<Rightarrow> v)"

text \<open>
  \<^verbatim>\<open>from_dict\<close> takes its defaults for \<^verbatim>\<open>id\<close> and \<^verbatim>\<open>created_at\<close> from
  \<^verbatim>\<open>uuid.uuid4()\<close> and \<^verbatim>\<open>time.time()\<close>; both readings are arguments here.
\<close>

definition from_dict :: "string \<Rightarrow> real \<Rightarrow> message_dict \<Rightarrow> email_message_data" where
  "from_dict uuid4 now d =
     \<lparr> msg_id = dict_get (d_id d) uuid4,
       from_addr = dict_get (d_from_addr d) [],
       to_addrs = dict_get (d_to_addrs d) [],
       message_headers = dict_get (d_message_headers d) [],
       message_body = dict_get (d_message_body d) [],
       created_at = dict_get (d_created_at d) now,
       retry_count = dict_get (d_retry_count d) 0,
       last_retry_at = dict_get (d_last_retry_at d) 0,
       status = dict_get (d_status d) ''pending'' \<rparr>"

definition increment_retry :: "real \<Rightarrow> email_message_data \<Rightarrow> email_message_data" where
  "increment_retry now m = m\<lparr> retry_count := retry_count m + 1, last_retry_at := now \<rparr>"

definition can_retry :: "email_message_data \<Rightarrow> int \<Rightarrow> bool" where
  "can_retry m max_retries \<longleftrightarrow> int (retry_count m) < max_retries"

definition get_retry_delay :: "email_message_data \<Rightarrow> int \<Rightarrow> int" where
  "get_retry_delay m base_delay = base_delay * 2 ^ retry_count m"

record sending_result =
  sr_success :: bool
  sr_message_id :: string
  sr_error_message :: string
  sr_retry_count :: nat

section \<open>Retry manager (app/email\_sender.py)\<close>

text \<open>
  \<^verbatim>\<open>RetryManager.send_with_retry\<close>. The injected sender is the argument \<open>send\<close>:
  \<open>send k m\<close> is what the \<open>k\<close>-th call of \<^verbatim>\<open>send_email\<close> returns for \<open>m\<close>; \<open>clock k\<close>
  is the reading of \<^verbatim>\<open>time.time()\<close> taken by \<^verbatim>\<open>increment_retry\<close> after that call.
  The message is mutated in place by the source, so it is returned, with the list of
  delays passed to \<^verbatim>\<open>asyncio.sleep\<close> and the number of the next call.
\<close>

function send_with_retry ::
  "int \<Rightarrow> int \<Rightarrow> (nat \<Rightarrow> email_message_data \<Rightarrow> sending_result) \<Rightarrow> (nat \<Rightarrow> real) \<Rightarrow>
   nat \<Rightarrow> email_message_data \<Rightarrow> int list \<Rightarrow>
   sending_result \<times> email_message_data \<times> int list \<times> nat" where
  "send_with_retry max_retries retry_delay send clock k m sleeps =
     (let result = send k m in
      if sr_success result then (result, m, sleeps, Suc k)
      else if \<not> can_retry m max_retries then (result, m, sleeps, Suc k)
      else
        let delay = get_retry_delay m retry_delay;
            m' = increment_retry (clock k) m
        in send_with_retry max_retries retry_delay send clock (Suc k) m' (sleeps @ [delay]))"
  by pat_completeness auto
termination
  by (relation "measure (\<lambda>(mx, rd, send, clock, k, m, sl). nat (mx - int (retry_count m)))")
     (auto simp: can_retry_def increment_retry_def)

section \<open>Exceptions and strings\<close>

text \<open>
  The exceptions the modelled code can meet that derive from \<^verbatim>\<open>Exception\<close>, which are
  those an \<^verbatim>\<open>except Exception\<close> clause catches. \<open>LibraryError\<close> carries the class name
  of an exception raised inside a library (the email package, the SMTP client, the store
  drivers).
\<close>

datatype py_error =
  TypeError | KeyError | AttributeError | ZeroDivisionError | IntegrityError
  | ConnectionError | LibraryError string

definition CR :: char where "CR = CHR 0x0D"
definition LF :: char where "LF = CHR 0x0A"

text \<open>\<^verbatim>\<open>str.lower()\<close> on the ASCII letters; other bytes are left as they are.\<close>

definition lower_char :: "char \<Rightarrow> char" where
  "lower_char c =
     (if (65::nat) \<le> of_char c \<and> of_char c \<le> (90::nat) then char_of (of_char c + (32::nat)) else c)"

definition lower :: "string \<Rightarrow> string" where
  "lower s = map lower_char s"

text \<open>\<^verbatim>\<open>sub in s\<close> on strings.\<close>

fun contains :: "string \<Rightarrow> string \<Rightarrow> bool" where
  "contains sub [] = (sub = [])"
| "contains sub (c # cs) = (take (length sub) (c # cs) = sub \<or> contains sub cs)"

text \<open>A CR not followed by LF, or an LF not preceded by CR.\<close>

fun bare_cr_lf :: "string \<Rightarrow> bool" where
  "bare_cr_lf [] = False"
| "bare_cr_lf [c] = (c = CR \<or> c = LF)"
| "bare_cr_lf (c # d # cs) =
     (if c = CR then (if d = LF then bare_cr_lf cs else True)
      else if c = LF then True
      else bare_cr_lf (d # cs))"

section \<open>Serialisation to wire bytes (app/models.py)\<close>

text \<open>
  The message object of the email package, as far as \<^verbatim>\<open>to_smtp_message\<close> uses it: the
  header list in order and the payload. \<^verbatim>\<open>msg[name] = value\<close> appends a header and
  \<^verbatim>\<open>name in msg\<close> compares names without case. The constructors \<^verbatim>\<open>MIMEText\<close> and
  \<^verbatim>\<open>MIMEMultipart\<close> set the MIME headers; the generator \<^verbatim>\<open>as_bytes\<close> belongs to the
  library and is the argument \<open>as_bytes\<close> of \<open>to_smtp_message\<close>.
\<close>

record mime_message =
  headers :: "(string \<times> string) list"
  payload :: "string option"

definition MIMEMultipart :: mime_message where
  "MIMEMultipart =
     \<lparr> headers = [(''Content-Type'', ''multipart/mixed''), (''MIME-Version'', ''1.0'')],
       payload = None \<rparr>"

definition MIMEText :: "string \<Rightarrow> mime_message" where
  \<open>MIMEText body =
     \<lparr> headers = [(''Content-Type'', ''text/plain; charset="utf-8"''),
                  (''MIME-Version'', ''1.0''),
                  (''Content-Transfer-Encoding'', ''base64'')],
       payload = Some body \<rparr>\<close>

definition set_header :: "string \<Rightarrow> string \<Rightarrow> mime_message \<Rightarrow> mime_message" where
  "set_header name val msg = msg\<lparr> headers := headers msg @ [(name, val)] \<rparr>"

definition has_header :: "string \<Rightarrow> mime_message \<Rightarrow> bool" where
  "has_header name msg \<longleftrightarrow> lower name \<in> set (map (lower \<circ> fst) (headers msg))"

definition ensure_header :: "string \<Rightarrow> string \<Rightarrow> mime_message \<Rightarrow> mime_message" where
  "ensure_header name val msg = (if has_header name msg then msg else set_header name val msg)"

fun copy_headers :: "(string \<times> string) list \<Rightarrow> mime_message \<Rightarrow> mime_message" where
  "copy_headers [] msg = msg"
| "copy_headers ((header_name, header_value) # rest) msg =
     (if lower header_name \<notin> set [''content-type'', ''content-transfer-encoding'']
      then copy_headers rest (set_header header_name header_value msg)
      else copy_headers rest msg)"

text \<open>\<^verbatim>\<open>', '.join(to_addrs)\<close>.\<close>

fun join_addrs :: "string list \<Rightarrow> string" where
  "join_addrs [] = []"
| "join_addrs [a] = a"
| "join_addrs (a # b # rest) = a @ '', '' @ join_addrs (b # rest)"

text \<open>
  \<open>built_message\<close> is the object handed to the generator; \<open>date\<close> and \<open>msgid\<close> are what
  \<^verbatim>\<open>email.utils.formatdate()\<close> and \<^verbatim>\<open>make_msgid()\<close> return.
\<close>

definition built_message :: "string \<Rightarrow> string \<Rightarrow> email_message_data \<Rightarrow> mime_message" where
  "built_message date msgid m =
     (let msg0 = (case map_of (message_headers m) ''Content-Type'' of
                    Some ct \<Rightarrow> if contains ''multipart'' ct then MIMEMultipart
                               else MIMEText (message_body m)
                  | None \<Rightarrow> MIMEText (message_body m));
          msg1 = copy_headers (message_headers m) msg0;
          msg2 = ensure_header ''From'' (from_addr m) msg1;
          msg3 = ensure_header ''To'' (join_addrs (to_addrs m)) msg2;
          msg4 = ensure_header ''Date'' date msg3
      in ensure_header ''Message-ID'' msgid msg4)"

definition to_smtp_message ::
  "(mime_message \<Rightarrow> py_error + string) \<Rightarrow> string \<Rightarrow> string \<Rightarrow> email_message_data \<Rightarrow>
   py_error + string" where
  "to_smtp_message as_bytes date msgid m = as_bytes (built_message date msgid m)"

text \<open>
  A generator that refuses every header value with a bare CR or LF, raising an error
  named \<^verbatim>\<open>MalformedHeader\<close>, and otherwise writes the header lines, an empty line and
  the payload. It is the strictest generator the serialisation could be run with.
\<close>

definition strict_as_bytes :: "mime_message \<Rightarrow> py_error + string" where
  "strict_as_bytes msg =
     (if list_ex (\<lambda>(n, v). bare_cr_lf v) (headers msg) then Inl (LibraryError ''MalformedHeader'')
      else Inr (concat (map (\<lambda>(n, v). n @ '': '' @ v @ [LF]) (headers msg)) @ [LF]
                @ (case payload msg of None \<Rightarrow> [] | Some p \<Rightarrow> p)))"

section \<open>Upstream client (app/email\_sender.py)\<close>

text \<open>
  The exceptions that derive from \<^verbatim>\<open>BaseException\<close> and not from \<^verbatim>\<open>Exception\<close>: an
  \<^verbatim>\<open>except Exception\<close> clause lets them through. \<^verbatim>\<open>asyncio.CancelledError\<close> is raised at
  an \<^verbatim>\<open>await\<close> of a task that is cancelled. What a call raises is one or the other.
\<close>

datatype base_error = CancelledError | KeyboardInterrupt | SystemExit

datatype raised = OfException py_error | OfBaseException base_error

text \<open>
  What the upstream does during one call of \<^verbatim>\<open>send_email\<close>: how \<^verbatim>\<open>connect\<close> ends
  (the constructor of the client raises, the connection or the login raises, or the
  client is connected) and what \<^verbatim>\<open>sendmail\<close> does: it raises, or it returns a tuple of
  two items, the dictionary of the refused recipients and the text of the last response
  (the client is \<^verbatim>\<open>aiosmtplib.SMTP\<close>).
\<close>

datatype connect_outcome = CtorRaises raised | ConnectRaises raised | Connected

record upstream =
  on_connect :: connect_outcome
  on_sendmail :: "raised + ((string \<times> string) list \<times> string)"

text \<open>\<^verbatim>\<open>str(e)\<close> and the text of the value of \<^verbatim>\<open>sendmail\<close>; the wording of the prefix is not modelled.\<close>

fun str_of_error :: "py_error \<Rightarrow> string" where
  "str_of_error TypeError = ''TypeError''"
| "str_of_error KeyError = ''KeyError''"
| "str_of_error AttributeError = ''AttributeError''"
| "str_of_error ZeroDivisionError = ''ZeroDivisionError''"
| "str_of_error IntegrityError = ''IntegrityError''"
| "str_of_error ConnectionError = ''ConnectionError''"
| "str_of_error (LibraryError name) = name"

definition str_of_errors :: "(string \<times> string) list \<times> string \<Rightarrow> string" where
  "str_of_errors errors =
     ''({'' @ concat (map (\<lambda>(rcpt, why). rcpt @ '': '' @ why @ '', '') (fst errors)) @ ''}, ''
     @ snd errors @ '')''"

text \<open>
  The test \<^verbatim>\<open>if errors:\<close> on the value of \<^verbatim>\<open>sendmail\<close>: a tuple is true when it has
  items, and this one has two, whatever the dictionary in it holds.
\<close>

definition tuple_truth :: "'a \<times> 'b \<Rightarrow> bool" where
  "tuple_truth t \<longleftrightarrow> length [(), ()] \<noteq> 0"

text \<open>
  \<^verbatim>\<open>EmailSender.connect\<close>: the client is stored in \<^verbatim>\<open>self.smtp_client\<close> before it is
  connected, and every exception is raised again. The state is whether
  \<^verbatim>\<open>self.smtp_client\<close> is set.
\<close>

definition connect_sender :: "upstream \<Rightarrow> bool \<Rightarrow> raised option \<times> bool" where
  "connect_sender up smtp_client =
     (case on_connect up of
        CtorRaises e \<Rightarrow> (Some e, smtp_client)
      | ConnectRaises e \<Rightarrow> (Some e, True)
      | Connected \<Rightarrow> (None, True))"

text \<open>The body of the \<^verbatim>\<open>try\<close> block of \<^verbatim>\<open>send_email\<close>: what is raised is \<open>Inl\<close>.\<close>

definition send_email_try ::
  "(mime_message \<Rightarrow> py_error + string) \<Rightarrow> string \<Rightarrow> string \<Rightarrow> upstream \<Rightarrow> bool \<Rightarrow>
   email_message_data \<Rightarrow> (raised + sending_result) \<times> bool" where
  "send_email_try as_bytes date msgid up smtp_client m =
     (let (failure, client) = (if \<not> smtp_client then connect_sender up smtp_client
                               else (None, smtp_client))
      in case failure of
           Some e \<Rightarrow> (Inl e, client)
         | None \<Rightarrow>
             (case to_smtp_message as_bytes date msgid m of
                Inl e \<Rightarrow> (Inl (OfException e), client)
              | Inr message_bytes \<Rightarrow>
                  (case on_sendmail up of
                     Inl e \<Rightarrow> (Inl e, client)
                   | Inr errors \<Rightarrow>
                       if tuple_truth errors then
                         (Inr \<lparr> sr_success = False, sr_message_id = msg_id m,
                                sr_error_message = str_of_errors errors,
                                sr_retry_count = retry_count m \<rparr>, client)
                       else
                         (Inr \<lparr> sr_success = True, sr_message_id = msg_id m,
                                sr_error_message = [],
                                sr_retry_count = retry_count m \<rparr>, client))))"

text \<open>
  \<^verbatim>\<open>send_email\<close> with its handler \<^verbatim>\<open>except Exception\<close>: an exception that derives from
  \<^verbatim>\<open>Exception\<close> becomes a failure result, any other leaves the function and is \<open>Inl\<close>.
\<close>

definition send_email ::
  "(mime_message \<Rightarrow> py_error + string) \<Rightarrow> string \<Rightarrow> string \<Rightarrow> upstream \<Rightarrow> bool \<Rightarrow>
   email_message_data \<Rightarrow> (base_error + sending_result) \<times> bool" where
  "send_email as_bytes date msgid up smtp_client m =
     (case send_email_try as_bytes date msgid up smtp_client m of
        (Inr result, client) \<Rightarrow> (Inr result, client)
      | (Inl (OfException e), client) \<Rightarrow>
          (Inr \<lparr> sr_success = False, sr_message_id = msg_id m,
                 sr_error_message = str_of_error e,
                 sr_retry_count = retry_count m \<rparr>, client)
      | (Inl (OfBaseException b), client) \<Rightarrow> (Inl b, client))"

section \<open>Queue backends (app/queue\_manager.py)\<close>

subsection \<open>Redis\<close>

text \<open>
  The two lists of the store, \<^verbatim>\<open>smtp_queue\<close> and \<^verbatim>\<open>smtp_processing\<close>, with the head
  of a list its left end. An entry is the JSON text of a dictionary; it is held as the
  dictionary (\<^verbatim>\<open>json.loads\<close> gives back what \<^verbatim>\<open>json.dumps\<close> was given). \<open>redis\<close>
  says whether \<^verbatim>\<open>self.redis\<close> is set and \<open>server_up\<close> whether the commands reach the
  server; a command that cannot run raises, and every method catches that.
\<close>

record redis_queue_manager =
  redis :: bool
  server_up :: bool
  smtp_queue :: "message_dict list"
  smtp_processing :: "message_dict list"

definition redis_usable :: "redis_queue_manager \<Rightarrow> bool" where
  "redis_usable r \<longleftrightarrow> redis r \<and> server_up r"

definition redis_connect :: "redis_queue_manager \<Rightarrow> py_error + redis_queue_manager" where
  "redis_connect r = (if server_up r then Inr (r\<lparr> redis := True \<rparr>) else Inl ConnectionError)"

text \<open>\<^verbatim>\<open>enqueue\<close>: LPUSH on \<^verbatim>\<open>smtp_queue\<close>; \<open>False\<close> when the command raised.\<close>

definition redis_enqueue ::
  "redis_queue_manager \<Rightarrow> email_message_data \<Rightarrow> bool \<times> redis_queue_manager" where
  "redis_enqueue r message =
     (if redis_usable r then (True, r\<lparr> smtp_queue := to_dict message # smtp_queue r \<rparr>)
      else (False, r))"

text \<open>\<^verbatim>\<open>dequeue\<close>: RPOPLPUSH from \<^verbatim>\<open>smtp_queue\<close> to \<^verbatim>\<open>smtp_processing\<close>.\<close>

definition redis_dequeue ::
  "string \<Rightarrow> real \<Rightarrow> redis_queue_manager \<Rightarrow> email_message_data option \<times> redis_queue_manager" where
  "redis_dequeue uuid4 now r =
     (if \<not> redis_usable r then (None, r)
      else if smtp_queue r = [] then (None, r)
      else
        let message_data = last (smtp_queue r)
        in (Some (from_dict uuid4 now message_data),
            r\<lparr> smtp_queue := butlast (smtp_queue r),
               smtp_processing := message_data # smtp_processing r \<rparr>))"



definition redis_get_queue_size :: "redis_queue_manager \<Rightarrow> nat" where
  "redis_get_queue_size r = (if redis_usable r then length (smtp_queue r) else 0)"

definition redis_get_processing_size :: "redis_queue_manager \<Rightarrow> nat" where
  "redis_get_processing_size r = (if redis_usable r then length (smtp_processing r) else 0)"

subsection \<open>SQLite\<close>

text \<open>
  A row of the table \<^verbatim>\<open>smtp_queue\<close>: the nine columns of the message and the column
  \<^verbatim>\<open>processing\<close>. The table is the list of its rows in insertion order, \<open>None\<close> while it
  has not been created; \<open>db\<close> says whether \<^verbatim>\<open>self.db\<close> is set.
\<close>

record queue_row =
  columns :: email_message_data
  processing :: int

record sqlite_queue_manager =
  db :: bool
  smtp_queue_table :: "queue_row list option"

text \<open>\<^verbatim>\<open>connect\<close> with \<^verbatim>\<open>_create_table\<close>: CREATE TABLE IF NOT EXISTS.\<close>

definition sqlite_connect :: "sqlite_queue_manager \<Rightarrow> sqlite_queue_manager" where
  "sqlite_connect s =
     s\<lparr> db := True,
        smtp_queue_table := (case smtp_queue_table s of None \<Rightarrow> Some [] | Some rows \<Rightarrow> Some rows) \<rparr>"

text \<open>\<^verbatim>\<open>enqueue\<close>: INSERT; the primary key \<^verbatim>\<open>id\<close> refuses a second row with the same id.\<close>

definition sqlite_enqueue ::
  "sqlite_queue_manager \<Rightarrow> email_message_data \<Rightarrow> bool \<times> sqlite_queue_manager" where
  "sqlite_enqueue s message =
     (if \<not> db s then (False, s)
      else case smtp_queue_table s of
             None \<Rightarrow> (False, s)
           | Some rows \<Rightarrow>
               if msg_id message \<in> set (map (msg_id \<circ> columns) rows) then (False, s)
               else (True, s\<lparr> smtp_queue_table :=
                                Some (rows @ [\<lparr> columns = message, processing = 0 \<rparr>]) \<rparr>))"

text \<open>ORDER BY created\_at ASC LIMIT 1: the first of the rows with the least \<^verbatim>\<open>created_at\<close>.\<close>

fun oldest :: "queue_row list \<Rightarrow> queue_row option" where
  "oldest [] = None"
| "oldest (row # rows) =
     (case oldest rows of
        None \<Rightarrow> Some row
      | Some other \<Rightarrow>
          if created_at (columns row) \<le> created_at (columns other) then Some row else Some other)"

definition sqlite_dequeue ::
  "string \<Rightarrow> real \<Rightarrow> sqlite_queue_manager \<Rightarrow> email_message_data option \<times> sqlite_queue_manager" where
  "sqlite_dequeue uuid4 now s =
     (if \<not> db s then (None, s)
      else case smtp_queue_table s of
             None \<Rightarrow> (None, s)
           | Some rows \<Rightarrow>
               (case oldest (filter (\<lambda>r. processing r = 0 \<and> status (columns r) = ''pending'') rows) of
                  None \<Rightarrow> (None, s)
                | Some row \<Rightarrow>
                    (Some (from_dict uuid4 now (to_dict (columns row))),
                     s\<lparr> smtp_queue_table :=
                          Some (map (\<lambda>r. if msg_id (columns r) = msg_id (columns row)
                                           then r\<lparr> processing := 1 \<rparr> else r) rows) \<rparr>)))"

text \<open>\<^verbatim>\<open>mark_completed(self, message_id, status)\<close>: UPDATE of the row with the id.\<close>

definition sqlite_mark_completed ::
  "sqlite_queue_manager \<Rightarrow> string \<Rightarrow> string \<Rightarrow> sqlite_queue_manager" where
  "sqlite_mark_completed s message_id st =
     (if \<not> db s then s
      else case smtp_queue_table s of
             None \<Rightarrow> s
           | Some rows \<Rightarrow>
               s\<lparr> smtp_queue_table :=
                    Some (map (\<lambda>r. if msg_id (columns r) = message_id
                                     then r\<lparr> columns := (columns r)\<lparr> status := st \<rparr>, processing := 0 \<rparr>
                                     else r) rows) \<rparr>)"

subsection \<open>The queue manager held by the ingress and the worker\<close>

datatype queue_manager =
  RedisQueueManager redis_queue_manager
| SQLiteQueueManager sqlite_queue_manager

text \<open>
  \<^verbatim>\<open>create_queue_manager\<close>: the manager named by \<^verbatim>\<open>config.queue.backend\<close> is built and
  connected; an exception of \<^verbatim>\<open>connect\<close> leaves the function.
\<close>

definition create_queue_manager ::
  "string \<Rightarrow> redis_queue_manager \<Rightarrow> sqlite_queue_manager \<Rightarrow> py_error + queue_manager" where
  "create_queue_manager backend r s =
     (if backend = ''redis'' then
        (case redis_connect r of Inl e \<Rightarrow> Inl e | Inr r' \<Rightarrow> Inr (RedisQueueManager r'))
      else Inr (SQLiteQueueManager (sqlite_connect s)))"

fun enqueue :: "queue_manager \<Rightarrow> email_message_data \<Rightarrow> bool \<times> queue_manager" where
  "enqueue (RedisQueueManager r) message =
     (let (ok, r') = redis_enqueue r message in (ok, RedisQueueManager r'))"
| "enqueue (SQLiteQueueManager s) message =
     (let (ok, s') = sqlite_enqueue s message in (ok, SQLiteQueueManager s'))"

fun dequeue :: "string \<Rightarrow> real \<Rightarrow> queue_manager \<Rightarrow> email_message_data option \<times> queue_manager" where
  "dequeue uuid4 now (RedisQueueManager r) =
     (let (message, r') = redis_dequeue uuid4 now r in (message, RedisQueueManager r'))"
| "dequeue uuid4 now (SQLiteQueueManager s) =
     (let (message, s') = sqlite_dequeue uuid4 now s in (message, SQLiteQueueManager s'))"

text \<open>
  The call \<^verbatim>\<open>mark_completed(message.id, status)\<close> of the worker, with two arguments.
  The method of the Redis manager takes the id only, so the call raises
  \<^verbatim>\<open>TypeError\<close> before the method runs. The result is the exception raised, if any, and
  the manager after the call.
\<close>

fun mark_completed :: "queue_manager \<Rightarrow> string \<Rightarrow> string \<Rightarrow> py_error option \<times> queue_manager" where
  "mark_completed (RedisQueueManager r) message_id st = (Some TypeError, RedisQueueManager r)"
| "mark_completed (SQLiteQueueManager s) message_id st =
     (None, SQLiteQueueManager (sqlite_mark_completed s message_id st))"

text \<open>The ids of the entries awaiting dispatch and of the entries handed to a worker.\<close>

fun ready_ids :: "queue_manager \<Rightarrow> string option list" where
  "ready_ids (RedisQueueManager r) = map d_id (smtp_queue r)"
| "ready_ids (SQLiteQueueManager s) =
     (case smtp_queue_table s of
        None \<Rightarrow> []
      | Some rows \<Rightarrow>
          map (Some \<circ> msg_id \<circ> columns)
            (filter (\<lambda>r. processing r = 0 \<and> status (columns r) = ''pending'') rows))"

fun in_flight_ids :: "queue_manager \<Rightarrow> string option list" where
  "in_flight_ids (RedisQueueManager r) = map d_id (smtp_processing r)"
| "in_flight_ids (SQLiteQueueManager s) =
     (case smtp_queue_table s of
        None \<Rightarrow> []
      | Some rows \<Rightarrow> map (Some \<circ> msg_id \<circ> columns) (filter (\<lambda>r. processing r = 1) rows))"

section \<open>Forwarding worker (app/email\_sender.py)\<close>

text \<open>
  \<^verbatim>\<open>EmailWorker._process_message\<close>. The first component of \<open>settled\<close> is the exception
  that left the \<^verbatim>\<open>try\<close> block, with the manager and the message as they were when it
  was raised; the handler then sets the status, enqueues and calls
  \<^verbatim>\<open>mark_completed\<close> again, inside its own \<^verbatim>\<open>try\<close>.
\<close>

definition process_message ::
  "int \<Rightarrow> int \<Rightarrow> (nat \<Rightarrow> email_message_data \<Rightarrow> sending_result) \<Rightarrow> (nat \<Rightarrow> real) \<Rightarrow> nat \<Rightarrow>
   queue_manager \<Rightarrow> email_message_data \<Rightarrow> queue_manager \<times> email_message_data \<times> int list \<times> nat" where
  "process_message max_retries retry_delay send clock k qm message =
     (let (result, m1, sleeps, k') = send_with_retry max_retries retry_delay send clock k message [];
          settled =
            (if sr_success result then
               (let (raised, q) = mark_completed qm (msg_id m1) ''sent'' in (raised, q, m1))
             else if can_retry m1 max_retries then
               (let m2 = m1\<lparr> status := ''pending'' \<rparr>;
                    (ok, q1) = enqueue qm m2;
                    (raised, q2) = mark_completed q1 (msg_id m2) ''failed_retry''
                in (raised, q2, m2))
             else
               (let (raised, q) = mark_completed qm (msg_id m1) ''failed'' in (raised, q, m1)))
      in case settled of
           (None, q, m) \<Rightarrow> (q, m, sleeps, k')
         | (Some e, q, m) \<Rightarrow>
             (let m3 = m\<lparr> status := ''pending'' \<rparr>;
                  (ok, q3) = enqueue q m3;
                  (raised, q4) = mark_completed q3 (msg_id m3) ''failed_retry''
              in (q4, m3, sleeps, k')))"

section \<open>SMTP ingress (app/smtp\_proxy.py, app/models.py)\<close>

text \<open>
  The envelope handed to \<^verbatim>\<open>handle_DATA\<close>, and what the email package gives for its
  content, as far as \<^verbatim>\<open>from_smtp_message\<close> reads it: the header list in order, whether
  the message is multipart, for every part met by \<^verbatim>\<open>walk()\<close> its content type and its
  payload, and the payload of the message itself. A payload is
  \<^verbatim>\<open>get_payload(decode=True)\<close> decoded as UTF-8 with invalid bytes dropped, and \<open>None\<close>
  where \<^verbatim>\<open>get_payload\<close> returns \<^verbatim>\<open>None\<close> (the call of \<^verbatim>\<open>decode\<close> then raises
  \<^verbatim>\<open>AttributeError\<close>). The parser \<^verbatim>\<open>message_from_bytes\<close> is an argument.
\<close>

record envelope =
  mail_from :: "string option"
  rcpt_tos :: "string list"
  content :: string

record parsed_message =
  pm_headers :: "(string \<times> string) list"
  pm_is_multipart :: bool
  pm_walk :: "(string \<times> string option) list"
  pm_payload :: "string option"

text \<open>\<^verbatim>\<open>message[name]\<close>: the value of the first header with the name, compared without case.\<close>

fun get_header :: "string \<Rightarrow> (string \<times> string) list \<Rightarrow> string option" where
  "get_header name [] = None"
| "get_header name ((n, v) # rest) = (if lower n = lower name then Some v else get_header name rest)"

text \<open>\<^verbatim>\<open>d[key] = value\<close> on a dictionary that keeps insertion order.\<close>

fun dict_set :: "string \<Rightarrow> string \<Rightarrow> (string \<times> string) list \<Rightarrow> (string \<times> string) list" where
  "dict_set key val [] = [(key, val)]"
| "dict_set key val ((k, v) # rest) =
     (if k = key then (k, val) # rest else (k, v) # dict_set key val rest)"

text \<open>
  The loop over \<^verbatim>\<open>message.keys()\<close>. A key is the name of a header of the message, so
  \<open>get_header\<close> finds it; the other case is not met.
\<close>

fun extract_headers ::
  "string list \<Rightarrow> (string \<times> string) list \<Rightarrow> (string \<times> string) list \<Rightarrow> (string \<times> string) list" where
  "extract_headers [] raw d = d"
| "extract_headers (header_name # names) raw d =
     (case get_header header_name raw of
        Some v \<Rightarrow> extract_headers names raw (dict_set header_name v d)
      | None \<Rightarrow> extract_headers names raw d)"

text \<open>
  The loop over \<^verbatim>\<open>message.walk()\<close>: a part of type text/plain ends the loop, one of type
  text/html is taken and the loop goes on.
\<close>

fun walk_body :: "(string \<times> string option) list \<Rightarrow> string \<Rightarrow> py_error + string" where
  "walk_body [] body = Inr body"
| "walk_body ((content_type, part) # rest) body =
     (if content_type = ''text/plain'' then
        (case part of None \<Rightarrow> Inl AttributeError | Some text \<Rightarrow> Inr text)
      else if content_type = ''text/html'' then
        (case part of None \<Rightarrow> Inl AttributeError | Some text \<Rightarrow> walk_body rest text)
      else walk_body rest body)"

text \<open>
  \<^verbatim>\<open>from_smtp_message\<close>; \<open>uuid4\<close> and \<open>now\<close> are the default values of the fields
  \<^verbatim>\<open>id\<close> and \<^verbatim>\<open>created_at\<close> of the dataclass.
\<close>

definition from_smtp_message ::
  "(string \<Rightarrow> py_error + parsed_message) \<Rightarrow> string \<Rightarrow> real \<Rightarrow> envelope \<Rightarrow>
   py_error + email_message_data" where
  "from_smtp_message message_from_bytes uuid4 now env =
     (case message_from_bytes (content env) of
        Inl e \<Rightarrow> Inl e
      | Inr message \<Rightarrow>
          (let sender = (case mail_from env of None \<Rightarrow> [] | Some a \<Rightarrow> a);
               hdrs = extract_headers (map fst (pm_headers message)) (pm_headers message) [];
               body = (if pm_is_multipart message then walk_body (pm_walk message) []
                       else (case pm_payload message of
                               None \<Rightarrow> Inl AttributeError
                             | Some text \<Rightarrow> Inr text))
           in case body of
                Inl e \<Rightarrow> Inl e
              | Inr text \<Rightarrow>
                  Inr \<lparr> msg_id = uuid4, from_addr = sender, to_addrs = rcpt_tos env,
                        message_headers = hdrs, message_body = text, created_at = now,
                        retry_count = 0, last_retry_at = 0, status = ''pending'' \<rparr>))"

text \<open>
  \<^verbatim>\<open>_validate_message\<close>; \<open>max_message_size\<close> is \<^verbatim>\<open>config.proxy.max_message_size\<close>, which
  the configuration loader does not define and which is an argument here.
\<close>

definition validate_message :: "int \<Rightarrow> email_message_data \<Rightarrow> bool" where
  "validate_message max_message_size message =
     (if from_addr message = [] then False
      else if to_addrs message = [] then False
      else if int (length (message_body message)) > max_message_size then False
      else True)"

text \<open>
  \<^verbatim>\<open>handle_DATA\<close>: the reply code and the queue manager afterwards. The queue
  manager is the one the handler holds (\<^verbatim>\<open>get_queue_manager\<close>, which would provide it,
  is not defined in \<^verbatim>\<open>queue_manager.py\<close>). The value returned by \<^verbatim>\<open>enqueue\<close> is not
  looked at.
\<close>

definition handle_DATA ::
  "(string \<Rightarrow> py_error + parsed_message) \<Rightarrow> int \<Rightarrow> string \<Rightarrow> real \<Rightarrow> queue_manager \<Rightarrow>
   envelope \<Rightarrow> nat \<times> queue_manager" where
  "handle_DATA message_from_bytes max_message_size uuid4 now qm env =
     (case from_smtp_message message_from_bytes uuid4 now env of
        Inl e \<Rightarrow> (451, qm)
      | Inr message \<Rightarrow>
          if \<not> validate_message max_message_size message then (550, qm)
          else (let (ok, qm') = enqueue qm message in (250, qm')))"

text \<open>
  The parse of a single-part message made of header lines \<^verbatim>\<open>Name: value\<close>, each ended
  by CR LF, an empty line and a 7-bit body: the input of the examples below.
\<close>

fun split_lines :: "string \<Rightarrow> string \<Rightarrow> string list" where
  "split_lines [] line = [line]"
| "split_lines [c] line = [line @ [c]]"
| "split_lines (c # d # cs) line =
     (if c = CR \<and> d = LF then line # split_lines cs [] else split_lines (d # cs) (line @ [c]))"

definition header_of_line :: "string \<Rightarrow> string \<times> string" where
  "header_of_line line =
     (takeWhile (\<lambda>c. c \<noteq> CHR '':'') line,
      dropWhile (\<lambda>c. c = CHR '' '') (drop 1 (dropWhile (\<lambda>c. c \<noteq> CHR '':'') line)))"

fun join_lines :: "string list \<Rightarrow> string" where
  "join_lines [] = []"
| "join_lines [l] = l"
| "join_lines (l # l' # ls) = l @ [CR, LF] @ join_lines (l' # ls)"

definition plain_message_from_bytes :: "string \<Rightarrow> py_error + parsed_message" where
  "plain_message_from_bytes data =
     (let lines = split_lines data [];
          head = takeWhile (\<lambda>l. l \<noteq> []) lines;
          body = join_lines (drop 1 (dropWhile (\<lambda>l. l \<noteq> []) lines))
      in Inr \<lparr> pm_headers = map header_of_line head, pm_is_multipart = False,
               pm_walk = [], pm_payload = Some body \<rparr>)"

section \<open>Token bucket (app/rate\_limiter.py)\<close>

text \<open>
  \<^verbatim>\<open>config.rate_limit.max_tokens\<close> and \<^verbatim>\<open>tokens_per_second\<close> are read by the limiter
  and not defined by the configuration loader; they are the two fields of \<open>bucket_config\<close>.
\<close>

record bucket_config =
  max_tokens :: real
  tokens_per_second :: real

record token_bucket =
  tokens :: real
  last_refill_time :: real

definition token_bucket_init :: "bucket_config \<Rightarrow> real \<Rightarrow> token_bucket" where
  "token_bucket_init cfg now = \<lparr> tokens = max_tokens cfg, last_refill_time = now \<rparr>"

definition refill_tokens :: "bucket_config \<Rightarrow> real \<Rightarrow> token_bucket \<Rightarrow> token_bucket" where
  "refill_tokens cfg now b =
     (let time_passed = now - last_refill_time b;
          tokens_to_add = time_passed * tokens_per_second cfg
      in if tokens_to_add > 0
         then b\<lparr> tokens := min (max_tokens cfg) (tokens b + tokens_to_add),
                 last_refill_time := now \<rparr>
         else b)"

text \<open>
  How a call of \<^verbatim>\<open>acquire\<close> ends: a permit is granted, an exception leaves it, or it
  is still in its loop when the clock readings given to the model are used up. Each
  carries the bucket and the delays slept so far.
\<close>

datatype acquire_result =
  Granted token_bucket "real list"
| Raised py_error token_bucket "real list"
| Waiting token_bucket "real list"

text \<open>
  \<^verbatim>\<open>TokenBucketRateLimiter.acquire\<close>. Each turn of the loop reads the clock once, in
  \<^verbatim>\<open>_refill_tokens\<close>; the readings are the list \<open>clock\<close>. Division by a rate of zero
  raises \<^verbatim>\<open>ZeroDivisionError\<close>.
\<close>

fun acquire :: "bucket_config \<Rightarrow> real list \<Rightarrow> token_bucket \<Rightarrow> real list \<Rightarrow> acquire_result" where
  "acquire cfg [] b sleeps = Waiting b sleeps"
| "acquire cfg (now # clock) b sleeps =
     (let b' = refill_tokens cfg now b in
      if tokens b' \<ge> 1 then Granted (b'\<lparr> tokens := tokens b' - 1 \<rparr>) sleeps
      else if tokens_per_second cfg = 0 then Raised ZeroDivisionError b' sleeps
      else
        let tokens_needed = 1 - tokens b';
            wait_time = tokens_needed / tokens_per_second cfg
        in acquire cfg clock b' (if wait_time > 0 then sleeps @ [wait_time] else sleeps))"

text \<open>
  The algorithm in the words of the specification: refill by
  \<open>(now - last_refill) * refill_rate\<close>, clamp to the capacity, update \<open>last_refill\<close>;
  with a token, decrement and return; else sleep \<open>(1 - tokens) / refill_rate\<close> and retry.
\<close>

fun acquire_spec :: "bucket_config \<Rightarrow> real list \<Rightarrow> token_bucket \<Rightarrow> real list \<Rightarrow> acquire_result" where
  "acquire_spec cfg [] b sleeps = Waiting b sleeps"
| "acquire_spec cfg (now # clock) b sleeps =
     (let refill = (now - last_refill_time b) * tokens_per_second cfg;
          b' = \<lparr> tokens = min (max_tokens cfg) (tokens b + refill), last_refill_time = now \<rparr>
      in if tokens b' \<ge> 1 then Granted (b'\<lparr> tokens := tokens b' - 1 \<rparr>) sleeps
         else acquire_spec cfg clock b' (sleeps @ [(1 - tokens b') / tokens_per_second cfg]))"

text \<open>The bucket after the refills at each of the readings, without any grant.\<close>

definition refill_all :: "bucket_config \<Rightarrow> real list \<Rightarrow> token_bucket \<Rightarrow> token_bucket" where
  "refill_all cfg readings b = foldl (\<lambda>b now. refill_tokens cfg now b) b readings"

section \<open>Example inputs\<close>

definition example_message :: email_message_data where
  "example_message =
     \<lparr> msg_id = ''m-1'', from_addr = ''a@x'', to_addrs = [''b@y''],
       message_headers = [(''Subject'', ''hi'')], message_body = ''hello'',
       created_at = 100, retry_count = 0, last_retry_at = 0, status = ''pending'' \<rparr>"

text \<open>
  Two upstreams: one that refuses the first two calls and accepts from the third on, and
  one that accepts every call.
\<close>

definition flaky_send :: "nat \<Rightarrow> email_message_data \<Rightarrow> sending_result" where
  "flaky_send k m =
     \<lparr> sr_success = (2 \<le> k), sr_message_id = msg_id m,
       sr_error_message = (if 2 \<le> k then [] else ''421''), sr_retry_count = retry_count m \<rparr>"

definition accepting_send :: "nat \<Rightarrow> email_message_data \<Rightarrow> sending_result" where
  "accepting_send k m =
     \<lparr> sr_success = True, sr_message_id = msg_id m,
       sr_error_message = [], sr_retry_count = retry_count m \<rparr>"

definition tick :: "nat \<Rightarrow> real" where
  "tick k = 1000 + real k"

text \<open>
  Upstreams that accept the connection: one drops it during \<^verbatim>\<open>sendmail\<close>, one refuses
  one recipient of two, and during the \<^verbatim>\<open>sendmail\<close> of the last the task is cancelled.
\<close>

definition lost_upstream :: upstream where
  "lost_upstream =
     \<lparr> on_connect = Connected,
       on_sendmail = Inl (OfException (LibraryError ''SMTPServerDisconnected'')) \<rparr>"

definition refusing_upstream :: upstream where
  "refusing_upstream =
     \<lparr> on_connect = Connected,
       on_sendmail = Inr ([(''b@y'', ''550 no such user'')], ''250 OK'') \<rparr>"

definition cancelled_upstream :: upstream where
  "cancelled_upstream =
     \<lparr> on_connect = Connected, on_sendmail = Inl (OfBaseException CancelledError) \<rparr>"

text \<open>A bucket of capacity 1 refilled at two tokens a second.\<close>

definition slow_bucket :: bucket_config where
  "slow_bucket = \<lparr> max_tokens = 1, tokens_per_second = 2 \<rparr>"

text \<open>Redis managers: connected with empty lists, and one whose server cannot be reached.\<close>

definition redis_empty :: redis_queue_manager where
  "redis_empty = \<lparr> redis = True, server_up = True, smtp_queue = [], smtp_processing = [] \<rparr>"

definition redis_down :: redis_queue_manager where
  "redis_down = \<lparr> redis = True, server_up = False, smtp_queue = [], smtp_processing = [] \<rparr>"

text \<open>
  The store as a killed worker leaves it, before the next start: the example message
  was dequeued and never settled.
\<close>

definition redis_stale :: redis_queue_manager where
  "redis_stale =
     \<lparr> redis = False, server_up = True, smtp_queue = [],
       smtp_processing = [to_dict example_message] \<rparr>"

definition sqlite_absent :: sqlite_queue_manager where
  "sqlite_absent = \<lparr> db = False, smtp_queue_table = None \<rparr>"

text \<open>
  Three envelopes from \<^verbatim>\<open>a@x\<close> to \<^verbatim>\<open>b@y\<close>: the message of the first scenario, and
  two DATA blocks of 2048 bytes, one with a header of 2042 bytes and the body \<^verbatim>\<open>hi\<close>,
  one with a body of 2033 bytes.
\<close>

definition hello_envelope :: envelope where
  "hello_envelope =
     \<lparr> mail_from = Some ''a@x'', rcpt_tos = [''b@y''],
       content = ''Subject: hi'' @ [CR, LF, CR, LF] @ ''hello'' \<rparr>"

definition padded_envelope :: envelope where
  "padded_envelope =
     \<lparr> mail_from = Some ''a@x'', rcpt_tos = [''b@y''],
       content = ''X-Pad: '' @ replicate 2035 (CHR ''a'') @ [CR, LF, CR, LF] @ ''hi'' \<rparr>"

definition large_body_envelope :: envelope where
  "large_body_envelope =
     \<lparr> mail_from = Some ''a@x'', rcpt_tos = [''b@y''],
       content = ''Subject: hi'' @ [CR, LF, CR, LF] @ replicate 2033 (CHR ''a'') \<rparr>"

text \<open>The Redis store after the example message was enqueued and dequeued.\<close>

definition redis_in_flight :: redis_queue_manager where
  "redis_in_flight =
     \<lparr> redis = True, server_up = True, smtp_queue = [],
       smtp_processing = [to_dict example_message] \<rparr>"

text \<open>
  A message with a line feed inside its \<^verbatim>\<open>Content-Type\<close> value, and one with a line
  feed inside its subject.
\<close>

definition content_type_injection :: email_message_data where
  "content_type_injection =
     example_message\<lparr> message_headers :=
       [(''Content-Type'', ''text/plain'' @ [LF] @ ''Bcc: c@z'')] \<rparr>"

definition subject_injection :: email_message_data where
  "subject_injection =
     example_message\<lparr> message_headers := [(''Subject'', ''hi'' @ [LF] @ ''Bcc: c@z'')] \<rparr>"

section \<open>Sequences of queue operations on the Redis store\<close>






section \<open>Properties\<close>

text \<open>
  C7. Converting a message to its dictionary form and back gives the same message, in
  all nine fields, whatever the defaults \<^verbatim>\<open>from_dict\<close> would have used.
\<close>

theorem from_dict_to_dict: "from_dict uuid4 now (to_dict m) = m"
  by (simp add: from_dict_def to_dict_def dict_get_def)

declare send_with_retry.simps [simp del]

lemma swr_success:
  "sr_success (send k m) \<Longrightarrow>
   send_with_retry mx rd send clock k m sl = (send k m, m, sl, Suc k)"
  by (subst send_with_retry.simps) (simp add: Let_def)

lemma swr_give_up:
  "\<not> sr_success (send k m) \<Longrightarrow> mx < int (retry_count m) + 1 \<Longrightarrow>
   send_with_retry mx rd send clock k m sl = (send k m, m, sl, Suc k)"
  by (subst send_with_retry.simps) (simp add: Let_def can_retry_def)

lemma swr_retry:
  "\<not> sr_success (send k m) \<Longrightarrow> int (retry_count m) + 1 \<le> mx \<Longrightarrow>
   send_with_retry mx rd send clock k m sl =
   send_with_retry mx rd send clock (Suc k)
     (m\<lparr> retry_count := retry_count m + 1, last_retry_at := clock k \<rparr>)
     (sl @ [rd * 2 ^ retry_count m])"
  by (subst send_with_retry.simps)
     (simp add: Let_def can_retry_def get_retry_delay_def increment_retry_def)

lemma swr_fail_then_ok:
  "(\<forall>j<n. \<forall>x. \<not> sr_success (send (k + j) x)) \<Longrightarrow>
   (\<forall>x. sr_success (send (k + n) x)) \<Longrightarrow>
   int (retry_count m) + int n \<le> mx \<Longrightarrow>
   send_with_retry mx rd send clock k m sl =
     (let m' = (if n = 0 then m
                else m\<lparr> retry_count := retry_count m + n, last_retry_at := clock (k + n - 1) \<rparr>)
      in (send (k + n) m', m',
          sl @ map (\<lambda>j. rd * 2 ^ (retry_count m + j)) [0..<n], Suc (k + n)))"
proof (induction n arbitrary: k m sl)
  case 0
  then show ?case by (simp add: swr_success)
next
  case (Suc n)
  let ?m1 = "m\<lparr> retry_count := retry_count m + 1, last_retry_at := clock k \<rparr>"
  have f0: "\<not> sr_success (send k m)" using Suc.prems(1) by (metis add.right_neutral zero_less_Suc)
  have step: "send_with_retry mx rd send clock k m sl =
     send_with_retry mx rd send clock (Suc k) ?m1 (sl @ [rd * 2 ^ retry_count m])"
    using f0 Suc.prems(3) by (intro swr_retry) auto
  have p1: "\<forall>j<n. \<forall>x. \<not> sr_success (send (Suc k + j) x)"
    using Suc.prems(1) by (metis Suc_less_eq add_Suc_shift)
  have p2: "\<forall>x. sr_success (send (Suc k + n) x)" using Suc.prems(2) by simp
  have p3: "int (retry_count ?m1) + int n \<le> mx" using Suc.prems(3) by simp
  have m: "map (\<lambda>j. rd * 2 ^ (retry_count m + j)) [0..<Suc n] =
        (rd * 2 ^ retry_count m) # map (\<lambda>j. rd * 2 ^ (retry_count m + 1 + j)) [0..<n]"
    by (simp add: upt_rec[of 0 "Suc n"] map_Suc_upt[symmetric] del: upt_Suc)
  show ?case
    unfolding step Suc.IH[OF p1 p2 p3] m
    by (cases n) (simp_all add: Let_def)
qed

lemma sum_backoff:
  "sum_list (map (\<lambda>j. rd * 2 ^ (r + j)) [0..<n]) = rd * 2 ^ r * (2 ^ n - 1 :: int)"
  by (induction n) (simp_all add: algebra_simps power_add)

text \<open>
  C4. When a send fails and \<open>retry_count + 1 > max_retries\<close>, the failing result is
  returned at once. Otherwise the delay \<open>base_delay * 2 ^ retry_count\<close> is taken from
  the counter before it is incremented, the counter is incremented, \<open>last_retry_at\<close> is
  set to the clock reading, and the send is tried again. So after \<open>n\<close> failures and a
  success, within the budget, the counter has grown by \<open>n\<close> and the delays slept are
  \<open>base_delay * 2 ^ (retry_count + j)\<close> for \<open>j < n\<close>: for two failures from a counter
  of 0, a counter of 2 and a total of \<open>base_delay * (1 + 2)\<close>.
\<close>

theorem send_with_retry_backoff:
  "(\<not> sr_success (send k m) \<and> max_retries < int (retry_count m) + 1 \<longrightarrow>
      send_with_retry max_retries base_delay send clock k m sleeps = (send k m, m, sleeps, Suc k))
   \<and> (\<not> sr_success (send k m) \<and> int (retry_count m) + 1 \<le> max_retries \<longrightarrow>
      send_with_retry max_retries base_delay send clock k m sleeps =
      send_with_retry max_retries base_delay send clock (Suc k)
        (m\<lparr> retry_count := retry_count m + 1, last_retry_at := clock k \<rparr>)
        (sleeps @ [base_delay * 2 ^ retry_count m]))
   \<and> ((\<forall>j<n. \<forall>x. \<not> sr_success (send (k + j) x)) \<and> (\<forall>x. sr_success (send (k + n) x))
        \<and> int (retry_count m) + int n \<le> max_retries \<and> 0 < n \<longrightarrow>
      (case send_with_retry max_retries base_delay send clock k m [] of
         (result, m', slept, k') \<Rightarrow>
           sr_success result \<and> result = send (k + n) m' \<and> k' = Suc (k + n)
           \<and> m' = m\<lparr> retry_count := retry_count m + n, last_retry_at := clock (k + n - 1) \<rparr>
           \<and> slept = map (\<lambda>j. base_delay * 2 ^ (retry_count m + j)) [0..<n]
           \<and> sum_list slept = base_delay * 2 ^ retry_count m * (2 ^ n - 1)))"
proof (intro conjI impI)
  assume "\<not> sr_success (send k m) \<and> max_retries < int (retry_count m) + 1"
  then show "send_with_retry max_retries base_delay send clock k m sleeps = (send k m, m, sleeps, Suc k)"
    by (simp add: swr_give_up)
next
  assume "\<not> sr_success (send k m) \<and> int (retry_count m) + 1 \<le> max_retries"
  then show "send_with_retry max_retries base_delay send clock k m sleeps =
      send_with_retry max_retries base_delay send clock (Suc k)
        (m\<lparr> retry_count := retry_count m + 1, last_retry_at := clock k \<rparr>)
        (sleeps @ [base_delay * 2 ^ retry_count m])"
    by (simp add: swr_retry)
next
  assume a: "(\<forall>j<n. \<forall>x. \<not> sr_success (send (k + j) x)) \<and> (\<forall>x. sr_success (send (k + n) x))
        \<and> int (retry_count m) + int n \<le> max_retries \<and> 0 < n"
  then have "send_with_retry max_retries base_delay send clock k m [] =
     (let m' = (if n = 0 then m
                else m\<lparr> retry_count := retry_count m + n, last_retry_at := clock (k + n - 1) \<rparr>)
      in (send (k + n) m', m',
          [] @ map (\<lambda>j. base_delay * 2 ^ (retry_count m + j)) [0..<n], Suc (k + n)))"
    by (intro swr_fail_then_ok) auto
  with a show "case send_with_retry max_retries base_delay send clock k m [] of
         (result, m', slept, k') \<Rightarrow>
           sr_success result \<and> result = send (k + n) m' \<and> k' = Suc (k + n)
           \<and> m' = m\<lparr> retry_count := retry_count m + n, last_retry_at := clock (k + n - 1) \<rparr>
           \<and> slept = map (\<lambda>j. base_delay * 2 ^ (retry_count m + j)) [0..<n]
           \<and> sum_list slept = base_delay * 2 ^ retry_count m * (2 ^ n - 1)"
    by (simp add: Let_def sum_backoff)
qed

theorem send_with_retry_backoff_witness:
  "send_with_retry 3 1 flaky_send tick 0 example_message [] =
     (flaky_send 2 (example_message\<lparr> retry_count := 2, last_retry_at := 1001 \<rparr>),
      example_message\<lparr> retry_count := 2, last_retry_at := 1001 \<rparr>, [1, 2], 3)
   \<and> sum_list [1, 2 :: int] = 1 * (1 + 2)
   \<and> send_with_retry 0 1 flaky_send tick 0 example_message [] =
       (flaky_send 0 example_message, example_message, [], 1)
   \<and> send_with_retry 3 1 flaky_send tick 0 example_message [] =
       send_with_retry 3 1 flaky_send tick 1
         (example_message\<lparr> retry_count := 1, last_retry_at := 1000 \<rparr>) [1]"
  using send_with_retry_backoff [where send = flaky_send and k = 0 and m = example_message
          and max_retries = 3 and base_delay = 1 and clock = tick and n = 2 and sleeps = "[]"]
        send_with_retry_backoff [where send = flaky_send and k = 0 and m = example_message
          and max_retries = 0 and base_delay = 1 and clock = tick and n = 2 and sleeps = "[]"]
  by (simp add: flaky_send_def example_message_def tick_def upt_rec numeral_2_eq_2 split: prod.splits)

text \<open>
  C10, as stated, fails: \<^verbatim>\<open>send_email\<close> catches \<^verbatim>\<open>Exception\<close> only, so the cancellation
  of the task during \<^verbatim>\<open>sendmail\<close> leaves it as \<^verbatim>\<open>asyncio.CancelledError\<close> and no
  result is returned.
\<close>

theorem send_email_cancelled_counterexample:
  "send_email strict_as_bytes ''Mon, 01 Jan 2024 00:00:00 -0000'' ''<1@relay>'' cancelled_upstream
     False example_message = (Inl CancelledError, True)"
  by code_simp

text \<open>
  C10. \<^verbatim>\<open>send_email\<close> lets out no exception that derives from \<^verbatim>\<open>Exception\<close>: what
  leaves it is an exception outside \<^verbatim>\<open>Exception\<close> raised by the connection or by
  \<^verbatim>\<open>sendmail\<close>, and when none is raised there it returns a result. A result it returns
  has the \<open>message_id\<close> and the \<open>retry_count\<close> of the message, and is a failure whenever
  \<^verbatim>\<open>sendmail\<close> raises or reports refused recipients, or the connection could not be
  made.
\<close>

theorem send_email_total:
  "(case send_email as_bytes date msgid up smtp_client m of
      (Inl b, client) \<Rightarrow>
        on_connect up = CtorRaises (OfBaseException b)
        \<or> on_connect up = ConnectRaises (OfBaseException b)
        \<or> on_sendmail up = Inl (OfBaseException b)
    | (Inr result, client) \<Rightarrow>
        sr_message_id result = msg_id m
        \<and> sr_retry_count result = retry_count m
        \<and> ((\<exists>e. on_sendmail up = Inl e) \<or> (\<exists>errors text. on_sendmail up = Inr (errors, text) \<and> errors \<noteq> [])
             \<longrightarrow> \<not> sr_success result)
        \<and> (\<not> smtp_client \<and> on_connect up \<noteq> Connected \<longrightarrow> \<not> sr_success result))
   \<and> ((\<forall>b. on_connect up \<noteq> CtorRaises (OfBaseException b)
            \<and> on_connect up \<noteq> ConnectRaises (OfBaseException b)
            \<and> on_sendmail up \<noteq> Inl (OfBaseException b))
        \<longrightarrow> (\<exists>result client. send_email as_bytes date msgid up smtp_client m = (Inr result, client)))"
  by (auto simp: send_email_def send_email_try_def connect_sender_def tuple_truth_def Let_def
           split: prod.splits sum.splits option.splits connect_outcome.splits raised.splits
                  if_splits)

lemma send_email_lost:
  "send_email strict_as_bytes ''Mon, 01 Jan 2024 00:00:00 -0000'' ''<1@relay>'' lost_upstream False
     example_message =
   (Inr \<lparr> sr_success = False, sr_message_id = ''m-1'',
          sr_error_message = ''SMTPServerDisconnected'', sr_retry_count = 0 \<rparr>, True)"
  by code_simp

lemma send_email_refused:
  "send_email strict_as_bytes ''Mon, 01 Jan 2024 00:00:00 -0000'' ''<1@relay>'' refusing_upstream
     False example_message =
   (Inr \<lparr> sr_success = False, sr_message_id = ''m-1'',
          sr_error_message = ''({b@y: 550 no such user, }, 250 OK)'', sr_retry_count = 0 \<rparr>, True)"
  by code_simp

theorem send_email_total_witness:
  "send_email strict_as_bytes ''Mon, 01 Jan 2024 00:00:00 -0000'' ''<1@relay>'' lost_upstream False
     example_message =
   (Inr \<lparr> sr_success = False, sr_message_id = ''m-1'',
          sr_error_message = ''SMTPServerDisconnected'', sr_retry_count = 0 \<rparr>, True)
   \<and> send_email strict_as_bytes ''Mon, 01 Jan 2024 00:00:00 -0000'' ''<1@relay>'' refusing_upstream
     False example_message =
   (Inr \<lparr> sr_success = False, sr_message_id = ''m-1'',
          sr_error_message = ''({b@y: 550 no such user, }, 250 OK)'', sr_retry_count = 0 \<rparr>, True)"
  using send_email_total [where as_bytes = strict_as_bytes
          and date = "''Mon, 01 Jan 2024 00:00:00 -0000''" and msgid = "''<1@relay>''"
          and up = lost_upstream and smtp_client = False and m = example_message]
        send_email_total [where as_bytes = strict_as_bytes
          and date = "''Mon, 01 Jan 2024 00:00:00 -0000''" and msgid = "''<1@relay>''"
          and up = refusing_upstream and smtp_client = False and m = example_message]
  by (simp add: send_email_lost send_email_refused)

lemma refill_bounds:
  "0 \<le> tokens b \<Longrightarrow> tokens b \<le> max_tokens cfg \<Longrightarrow>
   0 \<le> tokens (refill_tokens cfg now b) \<and> tokens (refill_tokens cfg now b) \<le> max_tokens cfg"
  by (simp add: refill_tokens_def Let_def)

lemma refill_all_snoc:
  "refill_all cfg (readings @ [now]) b = refill_tokens cfg now (refill_all cfg readings b)"
  by (simp add: refill_all_def)

lemma refill_all_Cons:
  "refill_all cfg (now # readings) b = refill_all cfg readings (refill_tokens cfg now b)"
  by (simp add: refill_all_def)

lemma acquire_granted:
  "acquire cfg clock b sl = Granted b' sl' \<Longrightarrow> 0 \<le> tokens b \<Longrightarrow> tokens b \<le> max_tokens cfg \<Longrightarrow>
   \<exists>n<length clock. 1 \<le> tokens (refill_all cfg (take (Suc n) clock) b)
      \<and> b' = (refill_all cfg (take (Suc n) clock) b)
                \<lparr> tokens := tokens (refill_all cfg (take (Suc n) clock) b) - 1 \<rparr>"
proof (induction clock arbitrary: b sl)
  case Nil
  then show ?case by simp
next
  case (Cons now clock)
  let ?b1 = "refill_tokens cfg now b"
  show ?case
  proof (cases "1 \<le> tokens ?b1")
    case True
    with Cons.prems(1) have "b' = ?b1\<lparr> tokens := tokens ?b1 - 1 \<rparr>" by (simp add: Let_def)
    with True show ?thesis by (intro exI[of _ 0]) (simp add: refill_all_def)
  next
    case False
    with Cons.prems(1) obtain sl1 where rec: "acquire cfg clock ?b1 sl1 = Granted b' sl'"
      by (auto simp: Let_def split: if_splits)
    from refill_bounds[OF Cons.prems(2,3)] have "0 \<le> tokens ?b1" "tokens ?b1 \<le> max_tokens cfg"
      by simp_all
    from Cons.IH[OF rec this] obtain n where n: "n < length clock"
      "1 \<le> tokens (refill_all cfg (take (Suc n) clock) ?b1)"
      "b' = (refill_all cfg (take (Suc n) clock) ?b1)
                \<lparr> tokens := tokens (refill_all cfg (take (Suc n) clock) ?b1) - 1 \<rparr>"
      by blast
    then show ?thesis
      by (intro exI[of _ "Suc n"]) (simp add: refill_all_Cons)
  qed
qed

lemma refill_all_bounds:
  "0 \<le> tokens b \<Longrightarrow> tokens b \<le> max_tokens cfg \<Longrightarrow>
   0 \<le> tokens (refill_all cfg readings b) \<and> tokens (refill_all cfg readings b) \<le> max_tokens cfg"
  by (induction readings arbitrary: b) (simp_all add: refill_all_def refill_bounds)

lemma acquire_bounds:
  "0 \<le> tokens b \<Longrightarrow> tokens b \<le> max_tokens cfg \<Longrightarrow>
   (case acquire cfg clock b sl of
      Granted b' sl' \<Rightarrow> 0 \<le> tokens b' \<and> tokens b' \<le> max_tokens cfg
    | Raised e b' sl' \<Rightarrow> 0 \<le> tokens b' \<and> tokens b' \<le> max_tokens cfg
    | Waiting b' sl' \<Rightarrow> 0 \<le> tokens b' \<and> tokens b' \<le> max_tokens cfg)"
proof (induction clock arbitrary: b sl)
  case Nil
  then show ?case by simp
next
  case (Cons now clock)
  from refill_bounds[OF Cons.prems] have b1: "0 \<le> tokens (refill_tokens cfg now b)"
    "tokens (refill_tokens cfg now b) \<le> max_tokens cfg" by simp_all
  show ?case using b1 Cons.IH[OF b1] by (simp add: Let_def)
qed

lemma acquire_eq_spec:
  "0 < tokens_per_second cfg \<Longrightarrow> sorted (last_refill_time b # clock) \<Longrightarrow>
   tokens b \<le> max_tokens cfg \<Longrightarrow>
   acquire cfg clock b sl = acquire_spec cfg clock b sl"
proof (induction clock arbitrary: b sl)
  case Nil
  then show ?case by simp
next
  case (Cons now clock)
  define b2 where
    "b2 = \<lparr> tokens = min (max_tokens cfg) (tokens b + (now - last_refill_time b) * tokens_per_second cfg),
            last_refill_time = now \<rparr>"
  have le: "last_refill_time b \<le> now" using Cons.prems(2) by simp
  have eq: "refill_tokens cfg now b = b2"
  proof (cases "last_refill_time b = now")
    case True
    then show ?thesis using Cons.prems(3) by (simp add: refill_tokens_def Let_def b2_def)
  next
    case False
    with le have "0 < (now - last_refill_time b) * tokens_per_second cfg"
      using Cons.prems(1) by simp
    then show ?thesis by (simp add: refill_tokens_def Let_def b2_def)
  qed
  have s1: "sorted (last_refill_time b2 # clock)" using Cons.prems(2) by (simp add: b2_def)
  have t1: "tokens b2 \<le> max_tokens cfg" by (simp add: b2_def)
  have ih: "acquire cfg clock b2 sl' = acquire_spec cfg clock b2 sl'" for sl'
    using Cons.IH[OF Cons.prems(1) s1 t1] .
  have spec: "acquire_spec cfg (now # clock) b sl =
      (if 1 \<le> tokens b2 then Granted (b2\<lparr> tokens := tokens b2 - 1 \<rparr>) sl
       else acquire_spec cfg clock b2 (sl @ [(1 - tokens b2) / tokens_per_second cfg]))"
    unfolding b2_def by (simp add: Let_def)
  have code: "acquire cfg (now # clock) b sl =
      (if 1 \<le> tokens b2 then Granted (b2\<lparr> tokens := tokens b2 - 1 \<rparr>) sl
       else acquire cfg clock b2 (sl @ [(1 - tokens b2) / tokens_per_second cfg]))"
  proof (cases "1 \<le> tokens b2")
    case True
    then show ?thesis unfolding acquire.simps eq Let_def by simp
  next
    case False
    then have "0 < 1 - tokens b2" by linarith
    then have "0 < (1 - tokens b2) / tokens_per_second cfg"
      using Cons.prems(1) by (rule divide_pos_pos)
    moreover have "tokens_per_second cfg \<noteq> 0" using Cons.prems(1) by simp
    ultimately show ?thesis using False unfolding acquire.simps eq Let_def by simp
  qed
  show ?case unfolding spec code ih ..
qed

text \<open>
  C9. From a bucket within \<open>[0, capacity]\<close>: with a positive rate and a clock that does
  not run backwards, \<^verbatim>\<open>acquire\<close> is the algorithm of the specification; and however
  it ends, the bucket it leaves is within \<open>[0, capacity]\<close>, a grant leaving the
  refilled bucket with exactly one token less.
\<close>

theorem acquire_token_bucket:
  assumes "0 \<le> tokens b" and "tokens b \<le> max_tokens cfg"
  shows "(0 < tokens_per_second cfg \<and> sorted (last_refill_time b # clock) \<longrightarrow>
            acquire cfg clock b sleeps = acquire_spec cfg clock b sleeps)
       \<and> (case acquire cfg clock b sleeps of
            Granted b' sleeps' \<Rightarrow>
              0 \<le> tokens b' \<and> tokens b' \<le> max_tokens cfg
              \<and> (\<exists>n<length clock. 1 \<le> tokens (refill_all cfg (take (Suc n) clock) b)
                    \<and> b' = (refill_all cfg (take (Suc n) clock) b)
                              \<lparr> tokens := tokens (refill_all cfg (take (Suc n) clock) b) - 1 \<rparr>)
          | Raised e b' sleeps' \<Rightarrow> 0 \<le> tokens b' \<and> tokens b' \<le> max_tokens cfg
          | Waiting b' sleeps' \<Rightarrow> 0 \<le> tokens b' \<and> tokens b' \<le> max_tokens cfg)"
proof (intro conjI impI)
  assume "0 < tokens_per_second cfg \<and> sorted (last_refill_time b # clock)"
  then show "acquire cfg clock b sleeps = acquire_spec cfg clock b sleeps"
    using assms(2) by (simp add: acquire_eq_spec)
next
  show "case acquire cfg clock b sleeps of
            Granted b' sleeps' \<Rightarrow>
              0 \<le> tokens b' \<and> tokens b' \<le> max_tokens cfg
              \<and> (\<exists>n<length clock. 1 \<le> tokens (refill_all cfg (take (Suc n) clock) b)
                    \<and> b' = (refill_all cfg (take (Suc n) clock) b)
                              \<lparr> tokens := tokens (refill_all cfg (take (Suc n) clock) b) - 1 \<rparr>)
          | Raised e b' sleeps' \<Rightarrow> 0 \<le> tokens b' \<and> tokens b' \<le> max_tokens cfg
          | Waiting b' sleeps' \<Rightarrow> 0 \<le> tokens b' \<and> tokens b' \<le> max_tokens cfg"
    using acquire_bounds[OF assms, of clock sleeps] acquire_granted[OF _ assms, of clock sleeps]
    by (auto split: acquire_result.splits)
qed

theorem acquire_token_bucket_witness:
  "acquire slow_bucket [1/4, 1/2] \<lparr> tokens = 0, last_refill_time = 0 \<rparr> [] =
     Granted \<lparr> tokens = 0, last_refill_time = 1/2 \<rparr> [1/4]
   \<and> acquire_spec slow_bucket [1/4, 1/2] \<lparr> tokens = 0, last_refill_time = 0 \<rparr> [] =
     Granted \<lparr> tokens = 0, last_refill_time = 1/2 \<rparr> [1/4]
   \<and> acquire slow_bucket [5] (token_bucket_init slow_bucket 0) [] =
     Granted \<lparr> tokens = 0, last_refill_time = 5 \<rparr> []"
  using acquire_token_bucket [of "\<lparr> tokens = 0, last_refill_time = 0 \<rparr>" slow_bucket "[1/4, 1/2]" "[]"]
  by (simp add: slow_bucket_def refill_tokens_def token_bucket_init_def Let_def)

lemma hello_parse:
  "from_smtp_message plain_message_from_bytes ''m-1'' 100 hello_envelope = Inr example_message"
  by (simp add: from_smtp_message_def plain_message_from_bytes_def hello_envelope_def
        example_message_def header_of_line_def CR_def LF_def lower_def lower_char_def Let_def)

text \<open>
  C1. A DATA transaction that passes validation is answered with 250 only if the
  message was appended to the queue. Evaluated on the message of the first scenario with
  a Redis server that cannot be reached: \<^verbatim>\<open>enqueue\<close> returns \<open>False\<close>, the queue is
  as before, and the reply of \<^verbatim>\<open>handle_DATA\<close> is 250 all the same.
\<close>

theorem handle_DATA_ignores_enqueue_failure:
  "from_smtp_message plain_message_from_bytes ''m-1'' 100 hello_envelope = Inr example_message
   \<and> validate_message 1024 example_message
   \<and> enqueue (RedisQueueManager redis_down) example_message = (False, RedisQueueManager redis_down)
   \<and> handle_DATA plain_message_from_bytes 1024 ''m-1'' 100 (RedisQueueManager redis_down) hello_envelope
       = (250, RedisQueueManager redis_down)"
  by (simp add: hello_parse handle_DATA_def validate_message_def redis_enqueue_def
        redis_usable_def redis_down_def)
     (simp add: example_message_def)

lemma len_padded: "length (content padded_envelope) = 2048"
  by (simp add: padded_envelope_def)

lemma len_large: "length (content large_body_envelope) = 2048"
  by (simp add: large_body_envelope_def)

lemma split_lines_no_cr:
  "CR \<notin> set s \<Longrightarrow> split_lines (s @ CR # LF # rest) line = (line @ s) # split_lines rest []"
proof (induction s arbitrary: line)
  case Nil
  then show ?case by simp
next
  case (Cons c s)
  then show ?case by (cases s) auto
qed

lemma split_lines_last: "CR \<notin> set s \<Longrightarrow> split_lines s line = [line @ s]"
  by (induction s line rule: split_lines.induct) auto

lemma plain_parse:
  "CR \<notin> set h \<Longrightarrow> CR \<notin> set b \<Longrightarrow> h \<noteq> [] \<Longrightarrow>
   plain_message_from_bytes (h @ [CR, LF, CR, LF] @ b) =
     Inr \<lparr> pm_headers = [header_of_line h], pm_is_multipart = False, pm_walk = [],
           pm_payload = Some b \<rparr>"
proof -
  assume h: "CR \<notin> set h" and b: "CR \<notin> set b" and ne: "h \<noteq> []"
  have "split_lines (h @ [CR, LF, CR, LF] @ b) [] = h # split_lines (CR # LF # b) []"
    using split_lines_no_cr[OF h, of "CR # LF # b" "[]"] by simp
  also have "split_lines (CR # LF # b) [] = [] # split_lines b []" by simp
  also have "split_lines b [] = [b]" using split_lines_last[OF b, of "[]"] by simp
  finally show ?thesis using ne by (simp add: plain_message_from_bytes_def Let_def)
qed

lemma padded_parse:
  "from_smtp_message plain_message_from_bytes ''m-1'' 100 padded_envelope =
     Inr (example_message\<lparr> message_headers := [(''X-Pad'', replicate 2035 (CHR ''a''))],
                           message_body := ''hi'' \<rparr>)"
proof -
  have "plain_message_from_bytes (content padded_envelope) =
     Inr \<lparr> pm_headers = [header_of_line (''X-Pad: '' @ replicate 2035 (CHR ''a''))],
           pm_is_multipart = False, pm_walk = [], pm_payload = Some ''hi'' \<rparr>"
    using plain_parse[of "''X-Pad: '' @ replicate 2035 (CHR ''a'')" "''hi''"]
    by (simp add: padded_envelope_def CR_def)
  moreover have "header_of_line (''X-Pad: '' @ replicate 2035 (CHR ''a'')) =
      (''X-Pad'', replicate 2035 (CHR ''a''))"
    by (simp add: header_of_line_def dropWhile_append3)
  ultimately show ?thesis
    by (simp add: from_smtp_message_def padded_envelope_def example_message_def Let_def)
qed

lemma large_parse:
  "from_smtp_message plain_message_from_bytes ''m-1'' 100 large_body_envelope =
     Inr (example_message\<lparr> message_body := replicate 2033 (CHR ''a'') \<rparr>)"
proof -
  have "plain_message_from_bytes (content large_body_envelope) =
     Inr \<lparr> pm_headers = [header_of_line ''Subject: hi''],
           pm_is_multipart = False, pm_walk = [], pm_payload = Some (replicate 2033 (CHR ''a'')) \<rparr>"
    using plain_parse[of "''Subject: hi''" "replicate 2033 (CHR ''a'')"]
    by (simp add: large_body_envelope_def CR_def)
  then show ?thesis
    by (simp add: from_smtp_message_def large_body_envelope_def example_message_def Let_def
          header_of_line_def)
qed

text \<open>
  C5, as stated, fails: a DATA block of 2048 bytes under a limit of 1024 is accepted
  when its body is small, since the size checked is that of the extracted body.
\<close>

theorem handle_DATA_small_body_counterexample:
  "length (content padded_envelope) = 2048
   \<and> fst (handle_DATA plain_message_from_bytes 1024 ''m-1'' 100
             (RedisQueueManager redis_empty) padded_envelope) = 250
   \<and> ready_ids (snd (handle_DATA plain_message_from_bytes 1024 ''m-1'' 100
             (RedisQueueManager redis_empty) padded_envelope)) = [Some ''m-1'']"
  by (simp add: len_padded handle_DATA_def padded_parse validate_message_def
        redis_enqueue_def redis_usable_def redis_empty_def to_dict_def)
     (simp add: example_message_def)

text \<open>
  C5. When the message parses, \<^verbatim>\<open>handle_DATA\<close> replies 550 exactly when the envelope
  sender is empty, the recipient list is empty, or the byte length of the extracted
  body exceeds \<^verbatim>\<open>max_message_size\<close>; and a reply of 550 leaves the queue as it was.
\<close>

theorem handle_DATA_rejects:
  assumes "from_smtp_message message_from_bytes uuid4 now env = Inr message"
  shows "(fst (handle_DATA message_from_bytes max_message_size uuid4 now qm env) = 550 \<longleftrightarrow>
            mail_from env = None \<or> mail_from env = Some [] \<or> rcpt_tos env = []
            \<or> max_message_size < int (length (message_body message)))
       \<and> (fst (handle_DATA message_from_bytes max_message_size uuid4 now qm env) = 550 \<longrightarrow>
            snd (handle_DATA message_from_bytes max_message_size uuid4 now qm env) = qm)"
proof -
  from assms have f: "from_addr message = (case mail_from env of None \<Rightarrow> [] | Some a \<Rightarrow> a)"
    and t: "to_addrs message = rcpt_tos env"
    by (auto simp: from_smtp_message_def Let_def split: sum.splits)
  show ?thesis
    using assms f t
    by (auto simp: handle_DATA_def validate_message_def split: prod.splits option.splits)
qed

theorem handle_DATA_rejects_witness:
  "length (content large_body_envelope) = 2048
   \<and> handle_DATA plain_message_from_bytes 1024 ''m-1'' 100
       (RedisQueueManager redis_empty) large_body_envelope = (550, RedisQueueManager redis_empty)"
  using handle_DATA_rejects [OF large_parse, of 1024 "RedisQueueManager redis_empty"]
  by (simp add: len_large large_body_envelope_def prod_eq_iff)

text \<open>
  C2, as stated, fails: an entry left in \<^verbatim>\<open>smtp_processing\<close> before the start is still
  there, and not in \<^verbatim>\<open>smtp_queue\<close>, once the manager has been created and connected.
\<close>

theorem create_queue_manager_counterexample:
  "create_queue_manager ''redis'' redis_stale sqlite_absent
     = Inr (RedisQueueManager (redis_stale\<lparr> redis := True \<rparr>))
   \<and> in_flight_ids (RedisQueueManager (redis_stale\<lparr> redis := True \<rparr>)) = [Some ''m-1'']
   \<and> ready_ids (RedisQueueManager (redis_stale\<lparr> redis := True \<rparr>)) = []"
  by (simp add: create_queue_manager_def redis_connect_def redis_stale_def to_dict_def
        example_message_def)

text \<open>
  C2. Starting the queue backend is \<^verbatim>\<open>create_queue_manager\<close>, which builds the manager
  and connects it; nothing is recovered. The entries ready and the entries in flight
  are afterwards those found in the store.
\<close>

theorem create_queue_manager_keeps_queues:
  "create_queue_manager backend r s = Inr qm \<Longrightarrow>
   in_flight_ids qm =
     in_flight_ids (if backend = ''redis'' then RedisQueueManager r else SQLiteQueueManager s)
   \<and> ready_ids qm =
     ready_ids (if backend = ''redis'' then RedisQueueManager r else SQLiteQueueManager s)"
  by (auto simp: create_queue_manager_def redis_connect_def sqlite_connect_def
           split: if_splits sum.splits option.splits)

theorem create_queue_manager_keeps_queues_witness:
  "in_flight_ids (RedisQueueManager (redis_stale\<lparr> redis := True \<rparr>)) =
     in_flight_ids (RedisQueueManager redis_stale)
   \<and> in_flight_ids (RedisQueueManager redis_stale) = [Some ''m-1'']"
  using create_queue_manager_keeps_queues [of "''redis''" redis_stale sqlite_absent
          "RedisQueueManager (redis_stale\<lparr> redis := True \<rparr>)"]
  by (simp add: create_queue_manager_def redis_connect_def redis_stale_def to_dict_def
        example_message_def)

lemma from_dict_inverse: "from_dict uuid4 now (to_dict m) = m"
  by (simp add: from_dict_def to_dict_def dict_get_def)

text \<open>
  C3. The worker settles a message whose send succeeded with the status \<^verbatim>\<open>sent\<close>.
  Evaluated on the Redis manager, after the example message was enqueued and dequeued
  and with an upstream that accepts: the call \<^verbatim>\<open>mark_completed(message.id, "sent")\<close>
  raises \<^verbatim>\<open>TypeError\<close>, the handler enqueues the message again, and the entry stays in
  \<^verbatim>\<open>smtp_processing\<close>.
\<close>

theorem process_message_redis_never_settles:
  "dequeue [] 0 (snd (enqueue (RedisQueueManager redis_empty) example_message))
     = (Some example_message, RedisQueueManager redis_in_flight)
   \<and> mark_completed (RedisQueueManager redis_in_flight) (msg_id example_message) ''sent''
     = (Some TypeError, RedisQueueManager redis_in_flight)
   \<and> process_message 3 1 accepting_send tick 0 (RedisQueueManager redis_in_flight) example_message
     = (RedisQueueManager (redis_in_flight\<lparr> smtp_queue := [to_dict example_message] \<rparr>),
        example_message, [], 1)"
proof -
  have a: "send_with_retry 3 1 accepting_send tick 0 example_message [] =
      (accepting_send 0 example_message, example_message, [], 1)"
    by (simp add: swr_success accepting_send_def)
  have b: "example_message\<lparr> status := ''pending'' \<rparr> = example_message"
    by (simp add: example_message_def)
  show ?thesis
    by (simp add: process_message_def a b accepting_send_def redis_enqueue_def redis_dequeue_def
          redis_usable_def redis_empty_def redis_in_flight_def from_dict_inverse Let_def)
qed

lemma swr_msg_id:
  "msg_id (fst (snd (send_with_retry mx rd send clock k m sl))) = msg_id m"
proof (induction mx rd send clock k m sl rule: send_with_retry.induct)
  case (1 mx rd send clock k m sl)
  show ?case
  proof (cases "sr_success (send k m) \<or> \<not> can_retry m mx")
    case True
    then show ?thesis by (subst send_with_retry.simps) (auto simp: Let_def)
  next
    case False
    then have "send_with_retry mx rd send clock k m sl =
       send_with_retry mx rd send clock (Suc k) (increment_retry (clock k) m)
         (sl @ [get_retry_delay m rd])"
      by (subst send_with_retry.simps) (simp add: Let_def)
    moreover have "msg_id (fst (snd (send_with_retry mx rd send clock (Suc k)
         (increment_retry (clock k) m) (sl @ [get_retry_delay m rd])))) =
         msg_id (increment_retry (clock k) m)"
      using False by (intro "1.IH") auto
    ultimately show ?thesis by (simp add: increment_retry_def)
  qed
qed

text \<open>
  On the SQLite manager the worker settles as its three branches say; and a send that
  failed has used up the budget, so the second branch is not taken after
  \<^verbatim>\<open>send_with_retry\<close>.
\<close>

lemma process_message_sqlite:
  "send_with_retry mx rd send clock k message [] = (result, m1, slept, k') \<Longrightarrow>
   fst (process_message mx rd send clock k (SQLiteQueueManager s) message) =
     SQLiteQueueManager
       (if sr_success result then sqlite_mark_completed s (msg_id m1) ''sent''
        else if can_retry m1 mx then
          sqlite_mark_completed (snd (sqlite_enqueue s (m1\<lparr> status := ''pending'' \<rparr>)))
            (msg_id m1) ''failed_retry''
        else sqlite_mark_completed s (msg_id m1) ''failed'')"
  by (simp add: process_message_def Let_def split: prod.splits)

lemma swr_failed_no_budget:
  "send_with_retry mx rd send clock k m sl = (result, m1, slept, k') \<Longrightarrow>
   \<not> sr_success result \<Longrightarrow> \<not> can_retry m1 mx"
proof (induction mx rd send clock k m sl rule: send_with_retry.induct)
  case (1 mx rd send clock k m sl)
  show ?case
  proof (cases "sr_success (send k m) \<or> \<not> can_retry m mx")
    case True
    then show ?thesis using "1.prems"
      by (subst (asm) send_with_retry.simps) (auto simp: Let_def split: if_splits)
  next
    case False
    then have "send_with_retry mx rd send clock k m sl =
       send_with_retry mx rd send clock (Suc k) (increment_retry (clock k) m)
         (sl @ [get_retry_delay m rd])"
      by (subst send_with_retry.simps) (simp add: Let_def)
    with "1.prems" have rec: "send_with_retry mx rd send clock (Suc k) (increment_retry (clock k) m)
         (sl @ [get_retry_delay m rd]) = (result, m1, slept, k')" by simp
    from False have f1: "\<not> sr_success (send k m)" and f2: "\<not> \<not> can_retry m mx" by auto
    show ?thesis by (rule "1.IH"[OF refl f1 f2 refl refl rec "1.prems"(2)])
  qed
qed








lemma copy_headers_keeps:
  "h \<in> set (headers msg) \<Longrightarrow> h \<in> set (headers (copy_headers hs msg))"
  by (induction hs msg rule: copy_headers.induct) (auto simp: set_header_def)

lemma copy_headers_adds:
  "(name, val) \<in> set hs \<Longrightarrow>
   lower name \<notin> {''content-type'', ''content-transfer-encoding''} \<Longrightarrow>
   (name, val) \<in> set (headers (copy_headers hs msg))"
proof (induction hs msg rule: copy_headers.induct)
  case (1 msg)
  then show ?case by simp
next
  case (2 header_name header_value rest msg)
  show ?case
  proof (cases "(name, val) = (header_name, header_value)")
    case True
    with "2.prems"(2) show ?thesis
      by (simp add: copy_headers_keeps set_header_def)
  next
    case False
    with "2.prems"(1) have "(name, val) \<in> set rest" by auto
    with "2.IH" "2.prems"(2) show ?thesis by auto
  qed
qed

lemma ensure_header_keeps:
  "h \<in> set (headers msg) \<Longrightarrow> h \<in> set (headers (ensure_header name val msg))"
  by (simp add: ensure_header_def set_header_def)

lemma built_message_has:
  "(name, val) \<in> set (message_headers m) \<Longrightarrow>
   lower name \<notin> {''content-type'', ''content-transfer-encoding''} \<Longrightarrow>
   (name, val) \<in> set (headers (built_message date msgid m))"
  by (simp add: built_message_def Let_def ensure_header_keeps copy_headers_adds)

text \<open>
  C8. \<^verbatim>\<open>to_smtp_message\<close> checks no header value itself: a stored header other than
  \<^verbatim>\<open>Content-Type\<close> and \<^verbatim>\<open>Content-Transfer-Encoding\<close> reaches the generator of the email
  package unchanged. So with a generator that refuses the messages having a header value
  of some kind, a message with such a value in one of those headers fails to serialise,
  with the error of the generator.
\<close>

theorem to_smtp_message_rejects:
  assumes "\<And>msg. list_ex (\<lambda>(n, v). refused v) (headers msg) \<Longrightarrow> as_bytes msg = Inl e"
    and "(name, val) \<in> set (message_headers m)"
    and "lower name \<notin> {''content-type'', ''content-transfer-encoding''}"
    and "refused val"
  shows "to_smtp_message as_bytes date msgid m = Inl e"
proof -
  have "(name, val) \<in> set (headers (built_message date msgid m))"
    using assms(2,3) by (rule built_message_has)
  with assms(4) have "list_ex (\<lambda>(n, v). refused v) (headers (built_message date msgid m))"
    by (auto simp: list_ex_iff)
  then show ?thesis unfolding to_smtp_message_def by (rule assms(1))
qed

theorem to_smtp_message_rejects_witness:
  "bare_cr_lf (''hi'' @ [LF] @ ''Bcc: c@z'')
   \<and> to_smtp_message strict_as_bytes ''Mon, 01 Jan 2024 00:00:00 -0000'' ''<1@relay>''
       subject_injection = Inl (LibraryError ''MalformedHeader'')"
proof -
  have r: "list_ex (\<lambda>(n, v). bare_cr_lf v) (headers msg) \<Longrightarrow>
      strict_as_bytes msg = Inl (LibraryError ''MalformedHeader'')" for msg
    by (simp add: strict_as_bytes_def)
  have b: "bare_cr_lf (''hi'' @ [LF] @ ''Bcc: c@z'')" by (simp add: CR_def LF_def)
  have h: "(''Subject'', ''hi'' @ [LF] @ ''Bcc: c@z'') \<in> set (message_headers subject_injection)"
    by (simp add: subject_injection_def)
  have l: "lower ''Subject'' \<notin> {''content-type'', ''content-transfer-encoding''}"
    by code_simp
  show ?thesis
    using to_smtp_message_rejects [of bare_cr_lf strict_as_bytes "LibraryError ''MalformedHeader''",
            OF r h l b] b
    by simp
qed

text \<open>
  C8, as stated, fails: a bare LF inside the \<^verbatim>\<open>Content-Type\<close> value is dropped with the
  header, and the message is serialised even by the strictest generator.
\<close>

theorem to_smtp_message_content_type_counterexample:
  "message_headers content_type_injection = [(''Content-Type'', ''text/plain'' @ [LF] @ ''Bcc: c@z'')]
   \<and> bare_cr_lf (''text/plain'' @ [LF] @ ''Bcc: c@z'')
   \<and> \<not> isl (to_smtp_message strict_as_bytes ''Mon, 01 Jan 2024 00:00:00 -0000'' ''<1@relay>''
              content_type_injection)"
  by code_simp

end
